theory Spec2Isabelle
  imports Complex_Main
begin

section \<open>The command-line front end of boofuzz (\<^verbatim>\<open>src/boofuzz/cli.py\<close>)\<close>

text \<open>
  The function \<^verbatim>\<open>fuzz\<close> of \<^verbatim>\<open>cli.py\<close> turns the options of the command line into
  the objects of a fuzzing run. It is embedded here as a function from the options, the
  environment it reads and the state it changes to its outcome: the value it leaves
  behind, a call of \<^verbatim>\<open>sys.exit\<close>, or an exception nobody catches.
\<close>

subsection \<open>Python values\<close>

text \<open>
  A Python \<^verbatim>\<open>str\<close> is a list of characters; a character of this development is a code
  point below 256. A Python \<^verbatim>\<open>float\<close> is a finite number, an infinity or a NaN; the code
  only ever tests one for truth, and a float is false exactly when it is zero.
\<close>

datatype pyfloat = Finite real | PosInf | NegInf | NaN

fun float_truthy :: "pyfloat \<Rightarrow> bool" where
  "float_truthy (Finite r) = (r \<noteq> 0)"
| "float_truthy PosInf = True"
| "float_truthy NegInf = True"
| "float_truthy NaN = True"

text \<open>\<open>float_positive\<close> is the word of the specification for a wait that is set; the code
  never asks for it.\<close>

fun float_positive :: "pyfloat \<Rightarrow> bool" where
  "float_positive (Finite r) = (0 < r)"
| "float_positive PosInf = True"
| "float_positive NegInf = False"
| "float_positive NaN = False"

datatype py_exception = ValueError | OSError | AttributeError | TargetError

text \<open>\<^verbatim>\<open>s.split(sep)\<close> for a separator of one character: the pieces between the separators,
  empty pieces included, so a string with \<open>n\<close> separators has \<open>n + 1\<close> pieces.\<close>

fun py_split :: "char \<Rightarrow> string \<Rightarrow> string list" where
  "py_split sep [] = [[]]"
| "py_split sep (c # cs) =
     (if c = sep then [] # py_split sep cs
      else (case py_split sep cs of
              [] \<Rightarrow> [[c]]
            | p # ps \<Rightarrow> (c # p) # ps))"

text \<open>
  The built-in \<^verbatim>\<open>int(s)\<close> of Python 3 on a string, base ten: white space around the
  number is dropped, one sign may lead, and the rest is groups of decimal digits joined by
  single underscores. Anything else raises \<^verbatim>\<open>ValueError\<close>. The white space that
  \<^verbatim>\<open>int\<close> drops is the code points 9 to 13, 32, 133 and 160; the separators 28 to 31,
  which \<^verbatim>\<open>str.isspace\<close> also counts as space, are not dropped, and \<^verbatim>\<open>int\<close> raises on
  them. The interpreter refuses a
  number of more than \<^verbatim>\<open>sys.get_int_max_str_digits()\<close> digits when that limit is not
  zero (the limit only counts above 640 digits); the limit is a parameter.
\<close>

definition py_isspace :: "char \<Rightarrow> bool" where
  "py_isspace c = (of_char c \<in> set [9, 10, 11, 12, 13, 32, 133, 160 :: nat])"

definition py_isdigit :: "char \<Rightarrow> bool" where
  "py_isdigit c = (48 \<le> (of_char c :: nat) \<and> (of_char c :: nat) \<le> 57)"

definition digit_value :: "char \<Rightarrow> int" where
  "digit_value c = int (of_char c) - 48"

definition py_strip :: "string \<Rightarrow> string" where
  "py_strip s = rev (dropWhile py_isspace (rev (dropWhile py_isspace s)))"

definition decimal_value :: "string \<Rightarrow> int" where
  "decimal_value ds = foldl (\<lambda>a d. 10 * a + digit_value d) 0 ds"

definition digit_groups_ok :: "string \<Rightarrow> bool" where
  "digit_groups_ok body = list_all (\<lambda>g. g \<noteq> [] \<and> list_all py_isdigit g) (py_split CHR ''_'' body)"

definition py_int_unsigned :: "nat \<Rightarrow> string \<Rightarrow> py_exception + int" where
  "py_int_unsigned max_digits body =
     (if \<not> digit_groups_ok body then Inl ValueError
      else let ds = filter (\<lambda>c. c \<noteq> CHR ''_'') body in
        if 0 < max_digits \<and> 640 < length ds \<and> max_digits < length ds then Inl ValueError
        else Inr (decimal_value ds))"

definition py_int :: "nat \<Rightarrow> string \<Rightarrow> py_exception + int" where
  "py_int max_digits s =
     (case py_strip s of
        [] \<Rightarrow> Inl ValueError
      | c # cs \<Rightarrow>
          if c = CHR ''+'' then py_int_unsigned max_digits cs
          else if c = CHR ''-'' then map_sum id uminus (py_int_unsigned max_digits cs)
          else py_int_unsigned max_digits (c # cs))"




subsection \<open>The range of test cases (lines 171 to 185)\<close>

text \<open>
  \<^verbatim>\<open>start, end = test_case_index.split("-")\<close> raises \<^verbatim>\<open>ValueError\<close> unless the split
  gives exactly two pieces. An empty piece is false in Python. The start is converted
  before the end, so a bad start is the error that is raised.
\<close>

definition parse_index_range ::
  "nat \<Rightarrow> string option \<Rightarrow> py_exception + (int \<times> int option)" where
  "parse_index_range max_digits test_case_index =
     (case test_case_index of
        None \<Rightarrow> Inr (1, None)
      | Some s \<Rightarrow>
          if CHR ''-'' \<in> set s then
            (case py_split CHR ''-'' s of
               [a, b] \<Rightarrow>
                 (case (if a = [] then Inr 1 else py_int max_digits a) of
                    Inl e \<Rightarrow> Inl e
                  | Inr start \<Rightarrow>
                      (if b = [] then Inr (start, None)
                       else (case py_int max_digits b of
                               Inl e \<Rightarrow> Inl e
                             | Inr end \<Rightarrow> Inr (start, Some end))))
             | _ \<Rightarrow> Inl ValueError)
          else
            (case py_int max_digits s of
               Inl e \<Rightarrow> Inl e
             | Inr n \<Rightarrow> Inr (n, Some n)))"

subsection \<open>Options, environment and state\<close>

text \<open>The parameters of \<^verbatim>\<open>fuzz\<close> (lines 87 to 109), as click hands them over; an
  option that was not given and has no default is \<^verbatim>\<open>None\<close>.\<close>

record options =
  target :: string
  test_case_index :: "string option"
  test_case_name :: "string option"
  csv_out :: "string option"
  sleep_between_cases :: pyfloat
  procmon_host :: "string option"
  procmon_port :: int
  stdout :: string
  tui :: bool
  text_dump :: bool
  feature_check :: bool
  target_cmd :: "string option"
  keep_web :: bool
  combinatorial :: bool
  record_passes :: int
  qemu :: bool
  qemu_path :: "string option"
  web_port :: int
  restart_interval :: "int option"
  target_start_wait :: pyfloat

text \<open>
  What the function reads and cannot change: the answer of \<^verbatim>\<open>platform.system()\<close>,
  the interpreter's limit on the digits of an integer, and the functions it calls that live
  outside \<^verbatim>\<open>cli.py\<close>: \<^verbatim>\<open>shlex.split\<close> of the standard library, \<^verbatim>\<open>parse_target\<close> of
  \<^verbatim>\<open>boofuzz.helpers\<close> and the built-in \<^verbatim>\<open>open\<close>, which gives a file handle. Each of
  them may raise.
\<close>

record env =
  platform_system :: string
  int_max_str_digits :: nat
  shlex_split :: "string \<Rightarrow> py_exception + string list"
  parse_target :: "string \<Rightarrow> py_exception + (string \<times> int)"
  open_file :: "string \<Rightarrow> string \<Rightarrow> py_exception + nat"

text \<open>
  What the function changes: the module variable \<^verbatim>\<open>debugger_thread_qemu.QEMU_PATH\<close>, and
  the outside world, kept as the list of what was done to it, oldest first. The module
  \<^verbatim>\<open>debugger_thread_qemu\<close> is not part of \<^verbatim>\<open>cli.py\<close>; the value its variable has when
  \<^verbatim>\<open>fuzz\<close> starts (the tool found on the search path, or nothing) is part of the initial
  state.
\<close>

datatype event =
    Print_stderr string
  | Open string string
  | New_ProcessMonitorLocal
  | New_FuzzLoggerText
  | New_FuzzLoggerCurses
  | New_FuzzLoggerCsv
  | New_ProcessMonitor
  | Call_set_options
  | New_TCPSocketConnection
  | New_Target
  | New_Session
  | New_CliContext

record world =
  QEMU_PATH :: "string option"
  trace :: "event list"

text \<open>\<^verbatim>\<open>not QEMU_PATH\<close>: \<^verbatim>\<open>None\<close> and the empty string are false.\<close>

fun str_truthy :: "string option \<Rightarrow> bool" where
  "str_truthy None = False"
| "str_truthy (Some s) = (s \<noteq> [])"

datatype 'a outcome = Return 'a | SysExit int | Raise py_exception

type_synonym 'a prog = "world \<Rightarrow> 'a outcome \<times> world"

definition ret :: "'a \<Rightarrow> 'a prog" where
  "ret x w = (Return x, w)"

definition sys_exit :: "int \<Rightarrow> 'a prog" where
  "sys_exit n w = (SysExit n, w)"

definition emit :: "event \<Rightarrow> unit prog" where
  "emit e w = (Return (), w\<lparr>trace := trace w @ [e]\<rparr>)"

definition lift :: "py_exception + 'a \<Rightarrow> 'a prog" where
  "lift r w = (case r of Inl e \<Rightarrow> (Raise e, w) | Inr x \<Rightarrow> (Return x, w))"

definition and_then :: "'a prog \<Rightarrow> ('a \<Rightarrow> 'b prog) \<Rightarrow> 'b prog" where
  "and_then m f w =
     (case m w of
        (Return x, w') \<Rightarrow> f x w'
      | (SysExit n, w') \<Rightarrow> (SysExit n, w')
      | (Raise e, w') \<Rightarrow> (Raise e, w'))"

subsection \<open>The objects that are built\<close>

datatype debugger = DebuggerThreadSimple | DebuggerThreadQemu

text \<open>The dictionary \<^verbatim>\<open>procmon_options\<close>: a key that was not set is \<open>None\<close>.\<close>

record procmon_options =
  start_commands :: "string list list option"
  startup_wait :: "pyfloat option"
  capture_output :: "bool option"
  hide_output :: "bool option"

definition no_options :: procmon_options where
  "no_options = \<lparr>start_commands = None, startup_wait = None,
     capture_output = None, hide_output = None\<rparr>"

text \<open>
  The classes of the monitors, loggers, connection, target and session live in other modules
  of boofuzz. An object of one of them is the call that made it, and the call is taken to
  return. A monitor comes with the options \<^verbatim>\<open>set_options\<close> gave it (\<open>None\<close> before that
  call).
\<close>

datatype monitor_kind =
    ProcessMonitor string int
  | ProcessMonitorLocal string "string option" "int option" debugger int

record monitor =
  kind :: monitor_kind
  options_set :: "procmon_options option"

datatype fuzz_logger = FuzzLoggerText | FuzzLoggerCurses | FuzzLoggerCsv nat

datatype connection = TCPSocketConnection string int

record session_target =
  connection :: connection
  monitors :: "monitor list"

record session =
  session_target :: session_target
  fuzz_loggers :: "fuzz_logger list"
  sleep_time :: pyfloat
  index_start :: int
  index_end :: "int option"
  keep_web_open :: bool
  fuzz_db_keep_only_n_pass_cases :: int
  session_web_port :: int
  session_restart_interval :: "int option"

text \<open>What \<^verbatim>\<open>fuzzcallback\<close> (lines 207 to 212) will call once the sub-commands are done.\<close>

datatype deferred_call =
    Session_feature_check
  | Session_fuzz "string option" "int option" bool

record cli_context =
  ctx_obj :: session
  resultcallback :: deferred_call

subsection \<open>The debugger backend (lines 110 to 123)\<close>

definition windows_message :: string where
  "windows_message =
     ''error: --qemu requires System V interface and is not currently supported on Windows''"

definition not_found_message :: string where
  "not_found_message = ''afl-qemu-trace not found. Is it available in PATH?''"

definition set_QEMU_PATH :: "string \<Rightarrow> unit prog" where
  "set_QEMU_PATH p w = (Return (), w\<lparr>QEMU_PATH := Some p\<rparr>)"

definition get_QEMU_PATH :: "string option prog" where
  "get_QEMU_PATH w = (Return (QEMU_PATH w), w)"

definition select_debugger :: "env \<Rightarrow> options \<Rightarrow> debugger prog" where
  "select_debugger ev opts =
     (if qemu opts then
        (if platform_system ev = ''Windows'' then
           and_then (emit (Print_stderr windows_message)) (\<lambda>_. sys_exit 1)
         else
           and_then (case qemu_path opts of Some p \<Rightarrow> set_QEMU_PATH p | None \<Rightarrow> ret ()) (\<lambda>_.
           and_then get_QEMU_PATH (\<lambda>path.
           if \<not> str_truthy path then
             and_then (emit (Print_stderr not_found_message)) (\<lambda>_. sys_exit 1)
           else ret DebuggerThreadQemu)))
      else ret DebuggerThreadSimple)"

subsection \<open>The local monitor (lines 124 to 132)\<close>

definition make_local_procmon :: "options \<Rightarrow> debugger \<Rightarrow> monitor option prog" where
  "make_local_procmon opts debugger_class =
     (if target_cmd opts \<noteq> None \<and> procmon_host opts = None then
        and_then (emit New_ProcessMonitorLocal) (\<lambda>_.
        ret (Some \<lparr>kind = ProcessMonitorLocal ''boofuzz-crash-bin'' None None debugger_class 1,
                   options_set = None\<rparr>))
      else ret None)"

subsection \<open>The loggers (lines 134 to 141)\<close>

text \<open>Lines 134 to 138: the sink of the console.\<close>

definition make_ui_loggers :: "options \<Rightarrow> fuzz_logger list prog" where
  "make_ui_loggers opts =
     (if text_dump opts then
        and_then (emit New_FuzzLoggerText) (\<lambda>_. ret [FuzzLoggerText])
      else if tui opts then
        and_then (emit New_FuzzLoggerCurses) (\<lambda>_. ret [FuzzLoggerCurses])
      else ret [])"

text \<open>Lines 139 to 141: the CSV sink, on the file that \<^verbatim>\<open>open("boofuzz.csv", "wb")\<close> gives.\<close>

definition add_csv_logger :: "env \<Rightarrow> options \<Rightarrow> fuzz_logger list \<Rightarrow> fuzz_logger list prog" where
  "add_csv_logger ev opts loggers =
     (if csv_out opts \<noteq> None then
        and_then (emit (Open ''boofuzz.csv'' ''wb'')) (\<lambda>_.
        and_then (lift (open_file ev ''boofuzz.csv'' ''wb'')) (\<lambda>f.
        and_then (emit New_FuzzLoggerCsv) (\<lambda>_.
        ret (loggers @ [FuzzLoggerCsv f]))))
      else ret loggers)"

definition make_fuzz_loggers :: "env \<Rightarrow> options \<Rightarrow> fuzz_logger list prog" where
  "make_fuzz_loggers ev opts = and_then (make_ui_loggers opts) (add_csv_logger ev opts)"

subsection \<open>The options of the monitor (lines 143 to 153)\<close>

definition make_procmon_options :: "env \<Rightarrow> options \<Rightarrow> py_exception + procmon_options" where
  "make_procmon_options ev opts =
     (case (case target_cmd opts of
              None \<Rightarrow> Inr no_options
            | Some cmd \<Rightarrow>
                (case shlex_split ev cmd of
                   Inl e \<Rightarrow> Inl e
                 | Inr argv \<Rightarrow> Inr (no_options\<lparr>start_commands := Some [argv]\<rparr>))) of
        Inl e \<Rightarrow> Inl e
      | Inr o1 \<Rightarrow>
          let o2 = (if float_truthy (target_start_wait opts)
                    then o1\<lparr>startup_wait := Some (target_start_wait opts)\<rparr> else o1);
              o3 = (if stdout opts = ''CAPTURE'' then o2\<lparr>capture_output := Some True\<rparr>
                    else if stdout opts = ''HIDE'' then o2\<lparr>hide_output := Some True\<rparr>
                    else if stdout opts = ''MIRROR'' then o2
                    else o2)
          in Inr o3)"

subsection \<open>The monitors of the session (lines 155 to 164)\<close>

text \<open>Were \<^verbatim>\<open>local_procmon\<close> \<^verbatim>\<open>None\<close> at line 159, the call of \<^verbatim>\<open>set_options\<close> on it
  would raise \<^verbatim>\<open>AttributeError\<close>.\<close>

definition attach_monitors ::
  "options \<Rightarrow> monitor option \<Rightarrow> procmon_options \<Rightarrow> monitor list prog" where
  "attach_monitors opts local_procmon pm_options =
     (if local_procmon \<noteq> None \<or> procmon_host opts \<noteq> None then
        and_then
          (case procmon_host opts of
             Some host \<Rightarrow>
               and_then (emit New_ProcessMonitor) (\<lambda>_.
               ret \<lparr>kind = ProcessMonitor host (procmon_port opts), options_set = None\<rparr>)
           | None \<Rightarrow>
               (case local_procmon of
                  Some m \<Rightarrow> ret m
                | None \<Rightarrow> lift (Inl AttributeError)))
          (\<lambda>procmon.
             and_then (emit Call_set_options) (\<lambda>_.
             ret [procmon\<lparr>options_set := Some pm_options\<rparr>]))
      else ret [])"

subsection \<open>The connection, the session and the deferred call (lines 166 to 212)\<close>

definition max_depth_of :: "options \<Rightarrow> int option" where
  "max_depth_of opts = (if combinatorial opts then None else Some 1)"

definition make_connection :: "env \<Rightarrow> options \<Rightarrow> connection prog" where
  "make_connection ev opts =
     and_then (lift (parse_target ev (target opts))) (\<lambda>(host, port).
     and_then (emit New_TCPSocketConnection) (\<lambda>_.
     ret (TCPSocketConnection host port)))"

definition fuzzcallback :: "options \<Rightarrow> int option \<Rightarrow> deferred_call" where
  "fuzzcallback opts max_depth =
     (if feature_check opts then Session_feature_check
      else Session_fuzz (test_case_name opts) max_depth (qemu opts))"

text \<open>Everything after the choice of the debugger: lines 124 to 212.\<close>

definition build_session :: "env \<Rightarrow> options \<Rightarrow> debugger \<Rightarrow> cli_context prog" where
  "build_session ev opts debugger =
     and_then (make_local_procmon opts debugger) (\<lambda>local_procmon.
     and_then (make_fuzz_loggers ev opts) (\<lambda>loggers.
     and_then (lift (make_procmon_options ev opts)) (\<lambda>pm_options.
     and_then (attach_monitors opts local_procmon pm_options) (\<lambda>mons.
     and_then (lift (parse_index_range (int_max_str_digits ev) (test_case_index opts)))
       (\<lambda>(start, end).
     and_then (make_connection ev opts) (\<lambda>conn.
     and_then (emit New_Target) (\<lambda>_.
     and_then (emit New_Session) (\<lambda>_.
     and_then (emit New_CliContext) (\<lambda>_.
     ret \<lparr>ctx_obj =
            \<lparr>session_target = \<lparr>connection = conn, monitors = mons\<rparr>,
             fuzz_loggers = loggers,
             sleep_time = sleep_between_cases opts,
             index_start = start,
             index_end = end,
             keep_web_open = keep_web opts,
             fuzz_db_keep_only_n_pass_cases = record_passes opts,
             session_web_port = web_port opts,
             session_restart_interval = restart_interval opts\<rparr>,
          resultcallback = fuzzcallback opts (max_depth_of opts)\<rparr>)))))))))"

text \<open>The whole function.\<close>

definition fuzz :: "env \<Rightarrow> options \<Rightarrow> cli_context prog" where
  "fuzz ev opts = and_then (select_debugger ev opts) (build_session ev opts)"

subsection \<open>Steps that neither exit nor print\<close>

text \<open>A step is quiet when it never calls \<^verbatim>\<open>sys.exit\<close>, leaves \<^verbatim>\<open>QEMU_PATH\<close> as it was
  and only adds events other than a print to the error stream.\<close>

definition quiet :: "'a prog \<Rightarrow> bool" where
  "quiet m =
     (\<forall>w. (\<forall>n. fst (m w) \<noteq> SysExit n) \<and>
          QEMU_PATH (snd (m w)) = QEMU_PATH w \<and>
          (\<exists>evs. trace (snd (m w)) = trace w @ evs \<and> (\<forall>s. Print_stderr s \<notin> set evs)))"

subsection \<open>Runs used as examples\<close>

text \<open>
  A Linux host whose interpreter has the usual limit of 4300 digits. Of \<^verbatim>\<open>shlex.split\<close>
  and \<^verbatim>\<open>parse_target\<close> only the value at one argument is fixed: the command
  \<^verbatim>\<open>mybinary --flag\<close> has the two words \<^verbatim>\<open>mybinary\<close> and \<^verbatim>\<open>--flag\<close>, and the target
  \<^verbatim>\<open>127.0.0.1:9999\<close> is the host \<^verbatim>\<open>127.0.0.1\<close> with the port 9999. Every file opens, with
  the handle 3.
\<close>

definition linux_env :: env where
  "linux_env =
     \<lparr>platform_system = ''Linux'',
      int_max_str_digits = 4300,
      shlex_split = (\<lambda>s. if s = ''mybinary --flag'' then Inr [''mybinary'', ''--flag'']
                         else Inl ValueError),
      parse_target = (\<lambda>s. if s = ''127.0.0.1:9999'' then Inr (''127.0.0.1'', 9999)
                          else Inl TargetError),
      open_file = (\<lambda>name mode. Inr 3)\<rparr>"

definition windows_env :: env where
  "windows_env = linux_env\<lparr>platform_system := ''Windows''\<rparr>"

text \<open>The command line \<^verbatim>\<open>--target 127.0.0.1:9999\<close> and nothing else: every other option
  has the default that its declaration (lines 39 to 85) gives it. The defaults of the two
  ports are constants of \<^verbatim>\<open>boofuzz.constants\<close>, outside \<^verbatim>\<open>cli.py\<close>; 26002 and 26000 stand
  for them.\<close>

definition default_options :: options where
  "default_options =
     \<lparr>target = ''127.0.0.1:9999'',
      test_case_index = None,
      test_case_name = None,
      csv_out = None,
      sleep_between_cases = Finite 0,
      procmon_host = None,
      procmon_port = 26002,
      stdout = ''MIRROR'',
      tui = False,
      text_dump = False,
      feature_check = False,
      target_cmd = None,
      keep_web = True,
      combinatorial = True,
      record_passes = 10,
      qemu = False,
      qemu_path = None,
      web_port = 26000,
      restart_interval = None,
      target_start_wait = Finite 0\<rparr>"

text \<open>A process in which no tool was found on the search path and nothing has happened yet.\<close>

definition initial_world :: world where
  "initial_world = \<lparr>QEMU_PATH = None, trace = []\<rparr>"

text \<open>The options a monitor gets from \<^verbatim>\<open>--target-cmd "mybinary --flag"\<close> alone.\<close>

definition mybinary_options :: procmon_options where
  "mybinary_options =
     \<lparr>start_commands = Some [[''mybinary'', ''--flag'']], startup_wait = None,
      capture_output = None, hide_output = None\<rparr>"

text \<open>What such a run hands over when the other options keep their defaults: only the
  monitors, the loggers and the range vary in the examples.\<close>

definition default_context ::
  "monitor list \<Rightarrow> fuzz_logger list \<Rightarrow> int \<Rightarrow> int option \<Rightarrow> bool \<Rightarrow> cli_context" where
  "default_context mons loggers start end with_qemu =
     \<lparr>ctx_obj =
        \<lparr>session_target =
           \<lparr>connection = TCPSocketConnection ''127.0.0.1'' 9999, monitors = mons\<rparr>,
         fuzz_loggers = loggers,
         sleep_time = Finite 0,
         index_start = start,
         index_end = end,
         keep_web_open = True,
         fuzz_db_keep_only_n_pass_cases = 10,
         session_web_port = 26000,
         session_restart_interval = None\<rparr>,
      resultcallback = Session_fuzz None None with_qemu\<rparr>"

section \<open>Properties\<close>

subsection \<open>Splitting and converting\<close>

lemma py_split_not_Nil: "py_split c s \<noteq> []"
  by (induction s) (auto split: list.splits)

lemma py_split_no_sep: "c \<notin> set s \<Longrightarrow> py_split c s = [s]"
  by (induction s) auto

lemma py_split_append_sep: "c \<notin> set a \<Longrightarrow> py_split c (a @ c # b) = a # py_split c b"
  by (induction a) auto

lemma length_py_split: "length (py_split c s) = Suc (count_list s c)"
  by (induction s) (auto split: list.splits simp: py_split_not_Nil)

lemmas py_int_eval = py_int_def py_strip_def py_isspace_def py_int_unsigned_def
  digit_groups_ok_def py_isdigit_def decimal_value_def digit_value_def

lemma parse_index_range_no_sep:
  "CHR ''-'' \<notin> set s \<Longrightarrow>
   parse_index_range m (Some s) =
     (case py_int m s of Inl e \<Rightarrow> Inl e | Inr n \<Rightarrow> Inr (n, Some n))"
  by (simp add: parse_index_range_def)

lemma parse_index_range_one_sep:
  "CHR ''-'' \<notin> set a \<Longrightarrow> CHR ''-'' \<notin> set b \<Longrightarrow>
   parse_index_range m (Some (a @ ''-'' @ b)) =
     (case (if a = [] then Inr 1 else py_int m a) of
        Inl e \<Rightarrow> Inl e
      | Inr start \<Rightarrow>
          (if b = [] then Inr (start, None)
           else (case py_int m b of
                   Inl e \<Rightarrow> Inl e
                 | Inr end \<Rightarrow> Inr (start, Some end))))"
  by (simp add: parse_index_range_def py_split_append_sep py_split_no_sep)

lemma parse_index_range_many_sep:
  assumes "2 \<le> count_list s CHR ''-''"
  shows "parse_index_range m (Some s) = Inl ValueError"
proof -
  from assms have len: "3 \<le> length (py_split CHR ''-'' s)"
    by (simp add: length_py_split)
  have "\<exists>x y z r. py_split CHR ''-'' s = x # y # z # r"
  proof (cases "py_split CHR ''-'' s")
    case Nil
    with len show ?thesis by simp
  next
    case first: (Cons x r1)
    show ?thesis
    proof (cases r1)
      case Nil
      with first len show ?thesis by simp
    next
      case second: (Cons y r2)
      show ?thesis
      proof (cases r2)
        case Nil
        with first second len show ?thesis by simp
      next
        case (Cons z r)
        with first second show ?thesis by simp
      qed
    qed
  qed
  then obtain x y z r where "py_split CHR ''-'' s = x # y # z # r"
    by blast
  moreover from assms have "CHR ''-'' \<in> set s"
    using count_list_0_iff [of s "CHR ''-''"] by auto
  ultimately show ?thesis
    by (simp add: parse_index_range_def)
qed

text \<open>What \<^verbatim>\<open>int\<close> accepts and what it refuses.\<close>

lemma py_int_examples:
  "py_int 4300 '' 42 '' = Inr 42"
  "py_int 4300 ''+7'' = Inr 7"
  "py_int 4300 ''007'' = Inr 7"
  "py_int 4300 ''1_000'' = Inr 1000"
  "py_int 4300 ''1__0'' = Inl ValueError"
  "py_int 4300 ''4 2'' = Inl ValueError"
  "py_int 4300 ''0x10'' = Inl ValueError"
  "py_int 4300 ''abc'' = Inl ValueError"
  "py_int 4300 '''' = Inl ValueError"
  "py_int 4300 [CHR 0x09, CHR ''7'', CHR 0x0A] = Inr 7"
  "py_int 4300 [CHR 0xA0, CHR ''7'', CHR 0x85] = Inr 7"
  "py_int 4300 [CHR 0x1C, CHR ''7''] = Inl ValueError"
  "py_int 4300 [CHR ''7'', CHR 0x1F] = Inl ValueError"
  by (simp_all add: py_int_eval)

text \<open>A specifier with one of the separators 28 to 31 beside the number is refused, as
  \<^verbatim>\<open>int\<close> refuses it.\<close>

lemma parse_index_range_refuses_separator_chars:
  "parse_index_range 4300 (Some [CHR 0x1C, CHR ''7'']) = Inl ValueError"
  "parse_index_range 4300 (Some [CHR ''7'', CHR 0x1F]) = Inl ValueError"
  "parse_index_range 4300 (Some [CHR 0x1D, CHR ''5'', CHR ''-'', CHR ''9'']) = Inl ValueError"
  by (simp_all add: parse_index_range_def py_int_eval)

subsection \<open>Numerals are read back\<close>







lemma dropWhile_none: "xs \<noteq> [] \<Longrightarrow> \<not> P (hd xs) \<Longrightarrow> dropWhile P xs = xs"
  by (cases xs) auto





subsection \<open>Sequencing\<close>

lemma and_then_ret: "and_then (ret x) f = f x"
  by (rule ext) (simp add: and_then_def ret_def)

lemma and_then_emit: "and_then (emit e) f w = f () (w\<lparr>trace := trace w @ [e]\<rparr>)"
  by (simp add: and_then_def emit_def)

lemma and_then_sys_exit: "and_then (sys_exit n) f w = (SysExit n, w)"
  by (simp add: and_then_def sys_exit_def)

lemma and_then_lift_Inr: "and_then (lift (Inr x)) f = f x"
  by (rule ext) (simp add: and_then_def lift_def)

lemma and_then_lift_Inl: "and_then (lift (Inl e)) f w = (Raise e, w)"
  by (simp add: and_then_def lift_def)

lemma and_then_SysExit: "m w = (SysExit n, w1) \<Longrightarrow> and_then m f w = (SysExit n, w1)"
  by (simp add: and_then_def)

lemma and_then_Raise: "m w = (Raise e, w1) \<Longrightarrow> and_then m f w = (Raise e, w1)"
  by (simp add: and_then_def)

lemma and_then_Return: "m w = (Return x, w1) \<Longrightarrow> and_then m f w = f x w1"
  by (simp add: and_then_def)

lemma and_then_Return_iff:
  "and_then m f w = (Return y, w') \<longleftrightarrow>
     (\<exists>x w1. m w = (Return x, w1) \<and> f x w1 = (Return y, w'))"
  by (cases "m w"; cases "fst (m w)") (auto simp: and_then_def)

lemma lift_Return_iff: "lift r w = (Return x, w') \<longleftrightarrow> r = Inr x \<and> w' = w"
  by (cases r) (auto simp: lift_def)

lemma emit_Return_iff: "emit e w = (Return u, w') \<longleftrightarrow> w' = w\<lparr>trace := trace w @ [e]\<rparr>"
  by (auto simp: emit_def)

lemma ret_Return_iff: "ret x w = (Return y, w') \<longleftrightarrow> y = x \<and> w' = w"
  by (auto simp: ret_def)

lemma quiet_ret: "quiet (ret x)"
  by (simp add: quiet_def ret_def)

lemma quiet_lift: "quiet (lift r)"
  by (simp add: quiet_def lift_def split: sum.splits)

lemma quiet_emit: "(\<And>s. e \<noteq> Print_stderr s) \<Longrightarrow> quiet (emit e)"
  by (auto simp add: quiet_def emit_def)

lemma quiet_and_then:
  assumes "quiet m" and "\<And>x. quiet (f x)"
  shows "quiet (and_then m f)"
  unfolding quiet_def
proof (intro allI)
  fix w
  obtain r w1 where mw: "m w = (r, w1)"
    by (cases "m w")
  from assms(1) mw obtain evs where first:
    "\<forall>n. r \<noteq> SysExit n" "QEMU_PATH w1 = QEMU_PATH w"
    "trace w1 = trace w @ evs" "\<forall>s. Print_stderr s \<notin> set evs"
    unfolding quiet_def by (metis fst_conv snd_conv)
  show "(\<forall>n. fst (and_then m f w) \<noteq> SysExit n) \<and>
         QEMU_PATH (snd (and_then m f w)) = QEMU_PATH w \<and>
         (\<exists>evs. trace (snd (and_then m f w)) = trace w @ evs \<and>
                (\<forall>s. Print_stderr s \<notin> set evs))"
  proof (cases r)
    case (Return x)
    from assms(2) [of x] obtain evs2 where second:
      "\<forall>n. fst (f x w1) \<noteq> SysExit n" "QEMU_PATH (snd (f x w1)) = QEMU_PATH w1"
      "trace (snd (f x w1)) = trace w1 @ evs2" "\<forall>s. Print_stderr s \<notin> set evs2"
      unfolding quiet_def by blast
    have "and_then m f w = f x w1"
      using mw Return by (simp add: and_then_def)
    with first second show ?thesis by auto
  next
    case (SysExit n)
    with first show ?thesis by simp
  next
    case (Raise e)
    with mw have "and_then m f w = (Raise e, w1)"
      by (simp add: and_then_def)
    with first show ?thesis by auto
  qed
qed

subsection \<open>The steps of \<^verbatim>\<open>fuzz\<close>, one by one\<close>

lemma select_debugger_no_qemu:
  "\<not> qemu opts \<Longrightarrow> select_debugger ev opts = ret DebuggerThreadSimple"
  by (simp add: select_debugger_def)

lemma select_debugger_windows:
  "qemu opts \<Longrightarrow> platform_system ev = ''Windows'' \<Longrightarrow>
   select_debugger ev opts w =
     (SysExit 1, w\<lparr>trace := trace w @ [Print_stderr windows_message]\<rparr>)"
  by (simp add: select_debugger_def and_then_emit sys_exit_def)

lemma select_debugger_elsewhere:
  "qemu opts \<Longrightarrow> platform_system ev \<noteq> ''Windows'' \<Longrightarrow>
   select_debugger ev opts w =
     (let w1 = (case qemu_path opts of Some p \<Rightarrow> w\<lparr>QEMU_PATH := Some p\<rparr> | None \<Rightarrow> w) in
      if str_truthy (QEMU_PATH w1) then (Return DebuggerThreadQemu, w1)
      else (SysExit 1, w1\<lparr>trace := trace w1 @ [Print_stderr not_found_message]\<rparr>))"
  by (simp add: select_debugger_def and_then_def emit_def sys_exit_def ret_def
      set_QEMU_PATH_def get_QEMU_PATH_def split: option.splits)

lemma select_debugger_Return:
  "select_debugger ev opts w = (Return d, w1) \<Longrightarrow>
     d = (if qemu opts then DebuggerThreadQemu else DebuggerThreadSimple) \<and>
     trace w1 = trace w"
  by (auto simp: select_debugger_def and_then_def emit_def sys_exit_def ret_def
      set_QEMU_PATH_def get_QEMU_PATH_def split: if_splits option.splits)

lemma make_local_procmon_eq:
  "make_local_procmon opts d w =
     (if target_cmd opts \<noteq> None \<and> procmon_host opts = None then
        (Return (Some \<lparr>kind = ProcessMonitorLocal ''boofuzz-crash-bin'' None None d 1,
                       options_set = None\<rparr>),
         w\<lparr>trace := trace w @ [New_ProcessMonitorLocal]\<rparr>)
      else (Return None, w))"
  by (simp add: make_local_procmon_def and_then_emit ret_def)

lemma make_ui_loggers_eq:
  "make_ui_loggers opts w =
     (if text_dump opts then
        (Return [FuzzLoggerText], w\<lparr>trace := trace w @ [New_FuzzLoggerText]\<rparr>)
      else if tui opts then
        (Return [FuzzLoggerCurses], w\<lparr>trace := trace w @ [New_FuzzLoggerCurses]\<rparr>)
      else (Return [], w))"
  by (simp add: make_ui_loggers_def and_then_emit ret_def)

lemma add_csv_logger_eq:
  "add_csv_logger ev opts ls w =
     (case csv_out opts of
        None \<Rightarrow> (Return ls, w)
      | Some p \<Rightarrow>
          (case open_file ev ''boofuzz.csv'' ''wb'' of
             Inl e \<Rightarrow> (Raise e, w\<lparr>trace := trace w @ [Open ''boofuzz.csv'' ''wb'']\<rparr>)
           | Inr f \<Rightarrow>
               (Return (ls @ [FuzzLoggerCsv f]),
                w\<lparr>trace := trace w @ [Open ''boofuzz.csv'' ''wb'', New_FuzzLoggerCsv]\<rparr>)))"
  by (simp add: add_csv_logger_def and_then_emit and_then_lift_Inl and_then_lift_Inr ret_def
      split: option.splits sum.splits)

lemma attach_monitors_eq:
  "attach_monitors opts lp pm w =
     (case procmon_host opts of
        Some host \<Rightarrow>
          (Return [\<lparr>kind = ProcessMonitor host (procmon_port opts), options_set = Some pm\<rparr>],
           w\<lparr>trace := trace w @ [New_ProcessMonitor, Call_set_options]\<rparr>)
      | None \<Rightarrow>
          (case lp of
             Some m \<Rightarrow>
               (Return [m\<lparr>options_set := Some pm\<rparr>],
                w\<lparr>trace := trace w @ [Call_set_options]\<rparr>)
           | None \<Rightarrow> (Return [], w)))"
  by (simp add: attach_monitors_def and_then_def emit_def ret_def lift_def
      split: option.splits)

lemma make_connection_eq:
  "make_connection ev opts w =
     (case parse_target ev (target opts) of
        Inl e \<Rightarrow> (Raise e, w)
      | Inr (host, port) \<Rightarrow>
          (Return (TCPSocketConnection host port),
           w\<lparr>trace := trace w @ [New_TCPSocketConnection]\<rparr>))"
  by (simp add: make_connection_def and_then_def emit_def ret_def lift_def
      split: sum.splits prod.splits)

lemma quiet_make_local_procmon: "quiet (make_local_procmon opts d)"
  unfolding make_local_procmon_def
  by (simp add: quiet_and_then quiet_emit quiet_ret)

lemma quiet_make_ui_loggers: "quiet (make_ui_loggers opts)"
  unfolding make_ui_loggers_def
  by (simp add: quiet_and_then quiet_emit quiet_ret)

lemma quiet_add_csv_logger: "quiet (add_csv_logger ev opts ls)"
  unfolding add_csv_logger_def
  by (simp add: quiet_and_then quiet_emit quiet_ret quiet_lift)

lemma quiet_make_fuzz_loggers: "quiet (make_fuzz_loggers ev opts)"
  unfolding make_fuzz_loggers_def
  by (simp add: quiet_and_then quiet_make_ui_loggers quiet_add_csv_logger)

lemma quiet_attach_monitors: "quiet (attach_monitors opts lp pm)"
  unfolding attach_monitors_def
  by (simp add: quiet_and_then quiet_emit quiet_ret quiet_lift split: option.splits)

lemma quiet_make_connection: "quiet (make_connection ev opts)"
  unfolding make_connection_def
  by (simp add: quiet_and_then quiet_emit quiet_ret quiet_lift split: prod.splits)

subsection \<open>Runs that return\<close>

lemma quiet_build_session: "quiet (build_session ev opts d)"
  unfolding build_session_def
  by (simp add: quiet_and_then quiet_make_local_procmon quiet_make_fuzz_loggers
      quiet_attach_monitors quiet_make_connection quiet_emit quiet_ret quiet_lift
      split: prod.splits)

lemma make_fuzz_loggers_Return:
  assumes "make_fuzz_loggers ev opts w = (Return ls, w')"
  shows "\<exists>csv evs.
      (case csv_out opts of
         None \<Rightarrow> csv = [] \<and> evs = []
       | Some p \<Rightarrow> \<exists>f. open_file ev ''boofuzz.csv'' ''wb'' = Inr f \<and> csv = [FuzzLoggerCsv f] \<and>
            evs = [Open ''boofuzz.csv'' ''wb'', New_FuzzLoggerCsv]) \<and>
      ls = (if text_dump opts then [FuzzLoggerText]
            else if tui opts then [FuzzLoggerCurses] else []) @ csv \<and>
      w' = w\<lparr>trace := trace w @
            (if text_dump opts then [New_FuzzLoggerText]
             else if tui opts then [New_FuzzLoggerCurses] else []) @ evs\<rparr>"
  using assms
  by (auto simp: make_fuzz_loggers_def and_then_Return_iff make_ui_loggers_eq add_csv_logger_eq
      split: if_splits option.splits sum.splits)

lemma build_session_Return:
  assumes "build_session ev opts d w = (Return c, w')"
  shows "\<exists>lp w2 ls w3 pm ms w4 st en conn w5.
    make_local_procmon opts d w = (Return lp, w2) \<and>
    make_fuzz_loggers ev opts w2 = (Return ls, w3) \<and>
    make_procmon_options ev opts = Inr pm \<and>
    attach_monitors opts lp pm w3 = (Return ms, w4) \<and>
    parse_index_range (int_max_str_digits ev) (test_case_index opts) = Inr (st, en) \<and>
    make_connection ev opts w4 = (Return conn, w5) \<and>
    w' = w5\<lparr>trace := trace w5 @ [New_Target, New_Session, New_CliContext]\<rparr> \<and>
    c = \<lparr>ctx_obj =
            \<lparr>session_target = \<lparr>connection = conn, monitors = ms\<rparr>,
             fuzz_loggers = ls,
             sleep_time = sleep_between_cases opts,
             index_start = st,
             index_end = en,
             keep_web_open = keep_web opts,
             fuzz_db_keep_only_n_pass_cases = record_passes opts,
             session_web_port = web_port opts,
             session_restart_interval = restart_interval opts\<rparr>,
          resultcallback = fuzzcallback opts (max_depth_of opts)\<rparr>"
  using assms unfolding build_session_def
  apply (simp only: and_then_Return_iff lift_Return_iff emit_Return_iff ret_Return_iff
      split_paired_Ex case_prod_conv)
  apply (elim exE conjE)
  apply (simp (no_asm_simp))
  apply blast
  done

lemma fuzz_Return:
  "fuzz ev opts w = (Return c, w') \<longleftrightarrow>
     (\<exists>w1. select_debugger ev opts w =
             (Return (if qemu opts then DebuggerThreadQemu else DebuggerThreadSimple), w1) \<and>
           trace w1 = trace w \<and>
           build_session ev opts (if qemu opts then DebuggerThreadQemu else DebuggerThreadSimple) w1 =
             (Return c, w'))"
  unfolding fuzz_def and_then_Return_iff
  using select_debugger_Return by blast

text \<open>What a run that returns has built, and what it has done on the way.\<close>

lemma build_session_result:
  assumes "build_session ev opts d w = (Return c, w')"
  shows "\<exists>pm f.
     make_procmon_options ev opts = Inr pm \<and>
     (csv_out opts \<noteq> None \<longrightarrow> open_file ev ''boofuzz.csv'' ''wb'' = Inr f) \<and>
     monitors (session_target (ctx_obj c)) =
       (case procmon_host opts of
          Some host \<Rightarrow> [\<lparr>kind = ProcessMonitor host (procmon_port opts), options_set = Some pm\<rparr>]
        | None \<Rightarrow>
            (case target_cmd opts of
               Some cmd \<Rightarrow> [\<lparr>kind = ProcessMonitorLocal ''boofuzz-crash-bin'' None None d 1,
                              options_set = Some pm\<rparr>]
             | None \<Rightarrow> [])) \<and>
     fuzz_loggers (ctx_obj c) =
       (if text_dump opts then [FuzzLoggerText]
        else if tui opts then [FuzzLoggerCurses] else []) @
       (if csv_out opts \<noteq> None then [FuzzLoggerCsv f] else []) \<and>
     parse_index_range (int_max_str_digits ev) (test_case_index opts) =
       Inr (index_start (ctx_obj c), index_end (ctx_obj c)) \<and>
     trace w' = trace w @
       (if target_cmd opts \<noteq> None \<and> procmon_host opts = None then [New_ProcessMonitorLocal] else []) @
       (if text_dump opts then [New_FuzzLoggerText]
        else if tui opts then [New_FuzzLoggerCurses] else []) @
       (if csv_out opts \<noteq> None then [Open ''boofuzz.csv'' ''wb'', New_FuzzLoggerCsv] else []) @
       (if procmon_host opts \<noteq> None then [New_ProcessMonitor, Call_set_options]
        else if target_cmd opts \<noteq> None then [Call_set_options] else []) @
       [New_TCPSocketConnection, New_Target, New_Session, New_CliContext]"
proof -
  from build_session_Return [OF assms] obtain lp w2 ls w3 pm ms w4 st en conn w5 where
    lp: "make_local_procmon opts d w = (Return lp, w2)" and
    ls: "make_fuzz_loggers ev opts w2 = (Return ls, w3)" and
    pm: "make_procmon_options ev opts = Inr pm" and
    ms: "attach_monitors opts lp pm w3 = (Return ms, w4)" and
    rg: "parse_index_range (int_max_str_digits ev) (test_case_index opts) = Inr (st, en)" and
    cn: "make_connection ev opts w4 = (Return conn, w5)" and
    w': "w' = w5\<lparr>trace := trace w5 @ [New_Target, New_Session, New_CliContext]\<rparr>" and
    c: "c = \<lparr>ctx_obj =
            \<lparr>session_target = \<lparr>connection = conn, monitors = ms\<rparr>,
             fuzz_loggers = ls,
             sleep_time = sleep_between_cases opts,
             index_start = st,
             index_end = en,
             keep_web_open = keep_web opts,
             fuzz_db_keep_only_n_pass_cases = record_passes opts,
             session_web_port = web_port opts,
             session_restart_interval = restart_interval opts\<rparr>,
          resultcallback = fuzzcallback opts (max_depth_of opts)\<rparr>"
    by blast
  from make_fuzz_loggers_Return [OF ls] obtain csv evs where
    csv: "case csv_out opts of
         None \<Rightarrow> csv = [] \<and> evs = []
       | Some p \<Rightarrow> \<exists>f. open_file ev ''boofuzz.csv'' ''wb'' = Inr f \<and> csv = [FuzzLoggerCsv f] \<and>
            evs = [Open ''boofuzz.csv'' ''wb'', New_FuzzLoggerCsv]" and
    ls_eq: "ls = (if text_dump opts then [FuzzLoggerText]
            else if tui opts then [FuzzLoggerCurses] else []) @ csv" and
    w3: "w3 = w2\<lparr>trace := trace w2 @
            (if text_dump opts then [New_FuzzLoggerText]
             else if tui opts then [New_FuzzLoggerCurses] else []) @ evs\<rparr>"
    by blast
  obtain f where f: "csv_out opts \<noteq> None \<longrightarrow> open_file ev ''boofuzz.csv'' ''wb'' = Inr f \<and> csv = [FuzzLoggerCsv f]"
    using csv by (cases "csv_out opts") auto
  have csv2: "csv = (if csv_out opts \<noteq> None then [FuzzLoggerCsv f] else [])"
    "evs = (if csv_out opts \<noteq> None then [Open ''boofuzz.csv'' ''wb'', New_FuzzLoggerCsv] else [])"
    using csv f by (cases "csv_out opts"; auto)+
  have lp_eq: "lp = (if target_cmd opts \<noteq> None \<and> procmon_host opts = None then
        Some \<lparr>kind = ProcessMonitorLocal ''boofuzz-crash-bin'' None None d 1, options_set = None\<rparr>
        else None)"
    and w2: "trace w2 = trace w @ (if target_cmd opts \<noteq> None \<and> procmon_host opts = None then [New_ProcessMonitorLocal] else [])"
    using lp by (auto simp: make_local_procmon_eq split: if_splits)
  have ms_eq: "ms = (case procmon_host opts of
          Some host \<Rightarrow> [\<lparr>kind = ProcessMonitor host (procmon_port opts), options_set = Some pm\<rparr>]
        | None \<Rightarrow>
            (case target_cmd opts of
               Some cmd \<Rightarrow> [\<lparr>kind = ProcessMonitorLocal ''boofuzz-crash-bin'' None None d 1,
                              options_set = Some pm\<rparr>]
             | None \<Rightarrow> []))"
    and w4: "trace w4 = trace w3 @ (if procmon_host opts \<noteq> None then [New_ProcessMonitor, Call_set_options]
        else if target_cmd opts \<noteq> None then [Call_set_options] else [])"
    using ms lp_eq by (auto simp: attach_monitors_eq split: option.splits if_splits)
  have w5: "trace w5 = trace w4 @ [New_TCPSocketConnection]"
    using cn by (auto simp: make_connection_eq split: sum.splits prod.splits)
  show ?thesis
    apply (rule exI [of _ pm], rule exI [of _ f])
    using pm f ms_eq ls_eq csv2 rg c w' w5 w4 w3 w2
    by simp
qed

subsection \<open>Evaluating a run\<close>

lemmas run_eval = fuzz_def select_debugger_def build_session_def make_local_procmon_def
  make_fuzz_loggers_def make_ui_loggers_def add_csv_logger_def make_procmon_options_def
  no_options_def attach_monitors_def make_connection_def fuzzcallback_def max_depth_of_def
  and_then_def emit_def lift_def ret_def sys_exit_def set_QEMU_PATH_def get_QEMU_PATH_def
  linux_env_def windows_env_def default_options_def initial_world_def default_context_def
  mybinary_options_def


text \<open>The command line \<^verbatim>\<open>--target 127.0.0.1:9999\<close> alone: no monitor, no logger, the
  range from 1 on, and the simple debugger for the deferred call.\<close>

lemma run_defaults:
  "fuzz linux_env default_options initial_world =
     (Return (default_context [] [] 1 None False),
      \<lparr>QEMU_PATH = None,
         trace = [New_TCPSocketConnection, New_Target, New_Session, New_CliContext]\<rparr>)"
  by (simp add: run_eval parse_index_range_def)

section \<open>The claims\<close>

subsection \<open>The range of test cases\<close>



text \<open>
  Claim C8, as the specification states it: whenever the parser accepts a specifier and the
  end is bounded, the start is at most the end. The code compares nothing: \<^verbatim>\<open>10-5\<close> is
  accepted with the start 10 and the end 5.
\<close>

theorem index_range_order_counterexample:
  "parse_index_range 4300 (Some ''10-5'') = Inr (10, Some 5) \<and> \<not> (10 :: int) \<le> 5"
  by (simp add: parse_index_range_def py_int_eval)

text \<open>
  Claim C8, amended. An accepted specifier without a separator gives a start equal to its
  end, hence a start that is at most the end. An accepted specifier \<open>a-b\<close> with a bounded end
  gives the two bounds as they are written (1 for an empty \<open>a\<close>), whichever is the larger.
\<close>

theorem index_range_order:
  "(CHR ''-'' \<notin> set s \<and> parse_index_range m (Some s) = Inr (start, Some end) \<longrightarrow>
      start = end \<and> start \<le> end) \<and>
   (CHR ''-'' \<notin> set a \<and> CHR ''-'' \<notin> set b \<and>
    parse_index_range m (Some (a @ ''-'' @ b)) = Inr (lo, Some hi) \<longrightarrow>
      (if a = [] then lo = 1 else py_int m a = Inr lo) \<and> py_int m b = Inr hi)"
proof (intro conjI impI)
  assume "CHR ''-'' \<notin> set s \<and> parse_index_range m (Some s) = Inr (start, Some end)"
  then show "start = end" and "start \<le> end"
    by (auto simp: parse_index_range_no_sep split: sum.splits)
next
  assume h: "CHR ''-'' \<notin> set a \<and> CHR ''-'' \<notin> set b \<and>
    parse_index_range m (Some (a @ ''-'' @ b)) = Inr (lo, Some hi)"
  then have "(case (if a = [] then Inr 1 else py_int m a) of
        Inl e \<Rightarrow> Inl e
      | Inr st \<Rightarrow>
          (if b = [] then Inr (st, None)
           else (case py_int m b of
                   Inl e \<Rightarrow> Inl e
                 | Inr en \<Rightarrow> Inr (st, Some en)))) = Inr (lo, Some hi)"
    using parse_index_range_one_sep [of a b m] by simp
  then show "if a = [] then lo = 1 else py_int m a = Inr lo" and "py_int m b = Inr hi"
    by (auto split: sum.splits if_splits)
qed

theorem index_range_order_witness:
  "CHR ''-'' \<notin> set ''7'' \<and> parse_index_range 4300 (Some ''7'') = Inr (7, Some 7) \<and>
   (7 :: int) \<le> 7 \<and>
   CHR ''-'' \<notin> set ''10'' \<and> CHR ''-'' \<notin> set ''5'' \<and>
   parse_index_range 4300 (Some (''10'' @ ''-'' @ ''5'')) = Inr (10, Some 5) \<and>
   py_int 4300 ''10'' = Inr 10 \<and> py_int 4300 ''5'' = Inr 5"
proof -
  have runs: "parse_index_range 4300 (Some ''7'') = Inr (7, Some 7)"
    "parse_index_range 4300 (Some (''10'' @ ''-'' @ ''5'')) = Inr (10, Some 5)"
    by (simp_all add: parse_index_range_def py_int_eval)
  from index_range_order [where m = 4300 and s = "''7''" and start = 7 and ?end = 7
      and a = "''10''" and b = "''5''" and lo = 10 and hi = 5]
  show ?thesis
    using runs by simp
qed

text \<open>
  Claim C10. A specifier with two or more separators gives no range: the split has more
  than two pieces, so the assignment to two variables raises \<^verbatim>\<open>ValueError\<close>, and a run of
  \<^verbatim>\<open>fuzz\<close> with such a specifier never returns a configuration.
\<close>

theorem too_many_separators:
  "2 \<le> count_list s CHR ''-'' \<longrightarrow>
     2 < length (py_split CHR ''-'' s) \<and>
     parse_index_range m (Some s) = Inl ValueError \<and>
     (test_case_index opts = Some s \<longrightarrow> (\<forall>c. fst (fuzz ev opts w) \<noteq> Return c))"
proof (intro impI conjI allI)
  assume many: "2 \<le> count_list s CHR ''-''"
  then show "2 < length (py_split CHR ''-'' s)"
    by (simp add: length_py_split)
  show "parse_index_range m (Some s) = Inl ValueError"
    using many by (rule parse_index_range_many_sep)
  fix c
  assume s: "test_case_index opts = Some s"
  show "fst (fuzz ev opts w) \<noteq> Return c"
  proof
    assume "fst (fuzz ev opts w) = Return c"
    then obtain w' where "fuzz ev opts w = (Return c, w')"
      by (cases "fuzz ev opts w") simp
    then obtain w1 d where "build_session ev opts d w1 = (Return c, w')"
      unfolding fuzz_Return by blast
    from build_session_result [OF this] s
    have "parse_index_range (int_max_str_digits ev) (Some s) =
        Inr (index_start (ctx_obj c), index_end (ctx_obj c))"
      by auto
    with parse_index_range_many_sep [OF many, of "int_max_str_digits ev"]
    show False by simp
  qed
qed

theorem too_many_separators_witness:
  "2 \<le> count_list ''1-5-9'' CHR ''-'' \<and>
   2 < length (py_split CHR ''-'' ''1-5-9'') \<and>
   parse_index_range 4300 (Some ''1-5-9'') = Inl ValueError \<and>
   test_case_index (default_options\<lparr>test_case_index := Some ''1-5-9''\<rparr>) = Some ''1-5-9'' \<and>
   fuzz linux_env (default_options\<lparr>test_case_index := Some ''1-5-9''\<rparr>) initial_world =
     (Raise ValueError, initial_world)"
proof -
  have run: "fuzz linux_env (default_options\<lparr>test_case_index := Some ''1-5-9''\<rparr>) initial_world =
     (Raise ValueError, initial_world)"
    by (simp add: run_eval parse_index_range_def)
  from too_many_separators [where s = "''1-5-9''" and m = 4300
      and opts = "default_options\<lparr>test_case_index := Some ''1-5-9''\<rparr>"
      and ev = linux_env and w = initial_world]
  show ?thesis
    using run by simp
qed

subsection \<open>The debugger backend\<close>

text \<open>
  Claim C3. With the QEMU flag set on Windows the program prints an error for the user and
  exits with the code 1. Nothing else has happened by then: the print is the only event, so
  no monitor, logger, connection or session was built, and \<^verbatim>\<open>QEMU_PATH\<close> is as it was.
\<close>

theorem qemu_on_windows_exits:
  "qemu opts \<and> platform_system ev = ''Windows'' \<longrightarrow>
     fuzz ev opts w = (SysExit 1, w\<lparr>trace := trace w @ [Print_stderr windows_message]\<rparr>)"
  by (simp add: fuzz_def and_then_SysExit select_debugger_windows)

theorem qemu_on_windows_exits_witness:
  "qemu (default_options\<lparr>qemu := True, target_cmd := Some ''mybinary --flag'', csv_out := Some ''log.csv'', tui := True\<rparr>) \<and>
   platform_system windows_env = ''Windows'' \<and>
   fuzz windows_env (default_options\<lparr>qemu := True, target_cmd := Some ''mybinary --flag'', csv_out := Some ''log.csv'', tui := True\<rparr>)
     initial_world =
     (SysExit 1, \<lparr>QEMU_PATH = None, trace = [Print_stderr windows_message]\<rparr>)"
  using qemu_on_windows_exits [where ev = windows_env and w = initial_world
      and opts = "default_options\<lparr>qemu := True, target_cmd := Some ''mybinary --flag'', csv_out := Some ''log.csv'', tui := True\<rparr>"]
  by (simp add: windows_env_def linux_env_def default_options_def initial_world_def)

lemma fuzz_no_qemu: "\<not> qemu opts \<Longrightarrow> fuzz ev opts = build_session ev opts DebuggerThreadSimple"
  by (simp add: fuzz_def select_debugger_no_qemu and_then_ret)

lemma run_local_monitor_on_windows:
  "fuzz windows_env
     (default_options\<lparr>qemu_path := Some ''/opt/afl/afl-qemu-trace'',
        target_cmd := Some ''mybinary --flag''\<rparr>) initial_world =
     (Return (default_context
        [\<lparr>kind = ProcessMonitorLocal ''boofuzz-crash-bin'' None None DebuggerThreadSimple 1,
          options_set = Some mybinary_options\<rparr>]
        [] 1 None False),
      \<lparr>QEMU_PATH = None,
         trace = [New_ProcessMonitorLocal, Call_set_options, New_TCPSocketConnection,
                  New_Target, New_Session, New_CliContext]\<rparr>)"
  by (simp add: run_eval parse_index_range_def)

text \<open>
  Claim C9. Without the QEMU flag the simple debugger is chosen, whatever the platform and
  whatever the path given for the tool: the choice changes nothing and prints nothing, the
  run never calls \<^verbatim>\<open>sys.exit\<close>, and a local monitor gets the simple debugger.
\<close>

theorem simple_debugger_without_qemu:
  "\<not> qemu opts \<longrightarrow>
     select_debugger ev opts w = (Return DebuggerThreadSimple, w) \<and>
     (\<forall>n. fst (fuzz ev opts w) \<noteq> SysExit n) \<and>
     QEMU_PATH (snd (fuzz ev opts w)) = QEMU_PATH w \<and>
     (\<exists>evs. trace (snd (fuzz ev opts w)) = trace w @ evs \<and> (\<forall>s. Print_stderr s \<notin> set evs)) \<and>
     (procmon_host opts = None \<and> target_cmd opts \<noteq> None \<and> fuzz ev opts w = (Return c, w') \<longrightarrow>
        map kind (monitors (session_target (ctx_obj c))) =
          [ProcessMonitorLocal ''boofuzz-crash-bin'' None None DebuggerThreadSimple 1])"
proof (intro impI conjI)
  assume nq: "\<not> qemu opts"
  show "select_debugger ev opts w = (Return DebuggerThreadSimple, w)"
    using nq by (simp add: select_debugger_no_qemu ret_def)
  have q: "quiet (fuzz ev opts)"
    using nq by (simp add: fuzz_no_qemu quiet_build_session)
  then show "\<forall>n. fst (fuzz ev opts w) \<noteq> SysExit n"
    and "QEMU_PATH (snd (fuzz ev opts w)) = QEMU_PATH w"
    and "\<exists>evs. trace (snd (fuzz ev opts w)) = trace w @ evs \<and> (\<forall>s. Print_stderr s \<notin> set evs)"
    unfolding quiet_def by blast+
  assume "procmon_host opts = None \<and> target_cmd opts \<noteq> None \<and> fuzz ev opts w = (Return c, w')"
  then have h: "procmon_host opts = None" "target_cmd opts \<noteq> None"
    "build_session ev opts DebuggerThreadSimple w = (Return c, w')"
    using nq by (simp_all add: fuzz_no_qemu)
  from build_session_result [OF h(3)] h(1,2)
  show "map kind (monitors (session_target (ctx_obj c))) =
          [ProcessMonitorLocal ''boofuzz-crash-bin'' None None DebuggerThreadSimple 1]"
    by auto
qed

theorem simple_debugger_without_qemu_witness:
  "\<not> qemu (default_options\<lparr>qemu_path := Some ''/opt/afl/afl-qemu-trace'',
        target_cmd := Some ''mybinary --flag''\<rparr>) \<and>
   select_debugger windows_env (default_options\<lparr>qemu_path := Some ''/opt/afl/afl-qemu-trace'',
        target_cmd := Some ''mybinary --flag''\<rparr>) initial_world =
     (Return DebuggerThreadSimple, initial_world) \<and>
   fst (fuzz windows_env (default_options\<lparr>qemu_path := Some ''/opt/afl/afl-qemu-trace'',
        target_cmd := Some ''mybinary --flag''\<rparr>) initial_world) =
     Return (default_context
        [\<lparr>kind = ProcessMonitorLocal ''boofuzz-crash-bin'' None None DebuggerThreadSimple 1,
          options_set = Some mybinary_options\<rparr>]
        [] 1 None False) \<and>
   QEMU_PATH (snd (fuzz windows_env (default_options\<lparr>qemu_path := Some ''/opt/afl/afl-qemu-trace'',
        target_cmd := Some ''mybinary --flag''\<rparr>) initial_world)) = None"
  using simple_debugger_without_qemu [where ev = windows_env and w = initial_world
      and opts = "default_options\<lparr>qemu_path := Some ''/opt/afl/afl-qemu-trace'',
        target_cmd := Some ''mybinary --flag''\<rparr>"
      and c = "default_context
        [\<lparr>kind = ProcessMonitorLocal ''boofuzz-crash-bin'' None None DebuggerThreadSimple 1,
          options_set = Some mybinary_options\<rparr>]
        [] 1 None False"
      and w' = "\<lparr>QEMU_PATH = None,
         trace = [New_ProcessMonitorLocal, Call_set_options, New_TCPSocketConnection,
                  New_Target, New_Session, New_CliContext]\<rparr>"]
  by (simp add: run_local_monitor_on_windows) (simp add: default_options_def initial_world_def)

subsection \<open>The monitors\<close>

lemma run_remote_monitor:
  "fuzz linux_env
     (default_options\<lparr>procmon_host := Some ''10.0.0.2'',
        target_cmd := Some ''mybinary --flag''\<rparr>) initial_world =
     (Return (default_context
        [\<lparr>kind = ProcessMonitor ''10.0.0.2'' 26002,
          options_set = Some mybinary_options\<rparr>]
        [] 1 None False),
      \<lparr>QEMU_PATH = None,
         trace = [New_ProcessMonitor, Call_set_options, New_TCPSocketConnection,
                  New_Target, New_Session, New_CliContext]\<rparr>)"
  by (simp add: run_eval parse_index_range_def)

text \<open>
  Claim C2. The session of a run that returns has a monitor exactly when a command to
  launch or a remote host of a monitor was given, and then it has one: the remote monitor
  when a host was given, the local one otherwise; with neither, the list is empty. The
  monitor has been given the options of the monitor.
\<close>

theorem monitor_attached_iff:
  "fuzz ev opts w = (Return c, w') \<longrightarrow>
     (monitors (session_target (ctx_obj c)) \<noteq> [] \<longleftrightarrow>
        target_cmd opts \<noteq> None \<or> procmon_host opts \<noteq> None) \<and>
     length (monitors (session_target (ctx_obj c))) \<le> 1 \<and>
     (\<forall>host. procmon_host opts = Some host \<longrightarrow>
        map kind (monitors (session_target (ctx_obj c))) =
          [ProcessMonitor host (procmon_port opts)]) \<and>
     (procmon_host opts = None \<and> target_cmd opts \<noteq> None \<longrightarrow>
        map kind (monitors (session_target (ctx_obj c))) =
          [ProcessMonitorLocal ''boofuzz-crash-bin'' None None
             (if qemu opts then DebuggerThreadQemu else DebuggerThreadSimple) 1]) \<and>
     (procmon_host opts = None \<and> target_cmd opts = None \<longrightarrow>
        monitors (session_target (ctx_obj c)) = []) \<and>
     (\<exists>pm. make_procmon_options ev opts = Inr pm \<and>
        map options_set (monitors (session_target (ctx_obj c))) =
          map (\<lambda>_. Some pm) (monitors (session_target (ctx_obj c))))"
proof
  assume "fuzz ev opts w = (Return c, w')"
  then obtain w1 where
    "build_session ev opts (if qemu opts then DebuggerThreadQemu else DebuggerThreadSimple) w1 =
       (Return c, w')"
    unfolding fuzz_Return by blast
  from build_session_result [OF this] obtain pm where
    pm: "make_procmon_options ev opts = Inr pm" and
    ms: "monitors (session_target (ctx_obj c)) =
       (case procmon_host opts of
          Some host \<Rightarrow> [\<lparr>kind = ProcessMonitor host (procmon_port opts), options_set = Some pm\<rparr>]
        | None \<Rightarrow>
            (case target_cmd opts of
               Some cmd \<Rightarrow> [\<lparr>kind = ProcessMonitorLocal ''boofuzz-crash-bin'' None None
                   (if qemu opts then DebuggerThreadQemu else DebuggerThreadSimple) 1,
                              options_set = Some pm\<rparr>]
             | None \<Rightarrow> []))"
    by blast
  show "(monitors (session_target (ctx_obj c)) \<noteq> [] \<longleftrightarrow>
        target_cmd opts \<noteq> None \<or> procmon_host opts \<noteq> None) \<and>
     length (monitors (session_target (ctx_obj c))) \<le> 1 \<and>
     (\<forall>host. procmon_host opts = Some host \<longrightarrow>
        map kind (monitors (session_target (ctx_obj c))) =
          [ProcessMonitor host (procmon_port opts)]) \<and>
     (procmon_host opts = None \<and> target_cmd opts \<noteq> None \<longrightarrow>
        map kind (monitors (session_target (ctx_obj c))) =
          [ProcessMonitorLocal ''boofuzz-crash-bin'' None None
             (if qemu opts then DebuggerThreadQemu else DebuggerThreadSimple) 1]) \<and>
     (procmon_host opts = None \<and> target_cmd opts = None \<longrightarrow>
        monitors (session_target (ctx_obj c)) = []) \<and>
     (\<exists>pm. make_procmon_options ev opts = Inr pm \<and>
        map options_set (monitors (session_target (ctx_obj c))) =
          map (\<lambda>_. Some pm) (monitors (session_target (ctx_obj c))))"
    unfolding ms using pm
    by (cases "procmon_host opts"; cases "target_cmd opts") auto
qed

theorem monitor_attached_iff_witness:
  "fst (fuzz linux_env
     (default_options\<lparr>procmon_host := Some ''10.0.0.2'',
        target_cmd := Some ''mybinary --flag''\<rparr>) initial_world) =
     Return (default_context
        [\<lparr>kind = ProcessMonitor ''10.0.0.2'' 26002,
          options_set = Some mybinary_options\<rparr>]
        [] 1 None False) \<and>
   map kind (monitors (session_target (ctx_obj (default_context
        [\<lparr>kind = ProcessMonitor ''10.0.0.2'' 26002,
          options_set = Some mybinary_options\<rparr>]
        [] 1 None False)))) = [ProcessMonitor ''10.0.0.2'' 26002]"
  using monitor_attached_iff [where ev = linux_env and w = initial_world
      and opts = "default_options\<lparr>procmon_host := Some ''10.0.0.2'',
        target_cmd := Some ''mybinary --flag''\<rparr>"
      and c = "default_context
        [\<lparr>kind = ProcessMonitor ''10.0.0.2'' 26002,
          options_set = Some mybinary_options\<rparr>]
        [] 1 None False"
      and w' = "\<lparr>QEMU_PATH = None,
         trace = [New_ProcessMonitor, Call_set_options, New_TCPSocketConnection,
                  New_Target, New_Session, New_CliContext]\<rparr>"]
  by (simp add: run_remote_monitor) (simp add: default_context_def)

lemma float_positive_truthy: "float_positive x \<Longrightarrow> float_truthy x"
  by (cases x) auto

text \<open>
  Claim C7, as the specification states it: \<^verbatim>\<open>startup_wait\<close> is set only when a positive
  wait was asked for. The code tests the wait for truth, and every float but zero is true:
  with \<^verbatim>\<open>--target-start-wait=-1\<close> the option is set, to \<open>-1\<close>.
\<close>

theorem startup_wait_negative_counterexample:
  "target_start_wait (default_options\<lparr>target_start_wait := Finite (- 1)\<rparr>) = Finite (- 1) \<and>
   \<not> float_positive (Finite (- 1)) \<and>
   map_sum id startup_wait
     (make_procmon_options linux_env (default_options\<lparr>target_start_wait := Finite (- 1)\<rparr>)) =
     Inr (Some (Finite (- 1)))"
  by (simp add: make_procmon_options_def default_options_def no_options_def)

text \<open>
  Claim C7, amended. \<^verbatim>\<open>start_commands\<close> is set only when a command to launch was given, and
  is then the list of one element, the words \<^verbatim>\<open>shlex.split\<close> makes of the command.
  \<^verbatim>\<open>startup_wait\<close> is set exactly when the wait asked for is not zero (so for every positive
  wait, and for a negative one too), to that wait. \<^verbatim>\<open>CAPTURE\<close> sets \<^verbatim>\<open>capture_output\<close> to
  true and leaves \<^verbatim>\<open>hide_output\<close> unset, \<^verbatim>\<open>HIDE\<close> sets \<^verbatim>\<open>hide_output\<close> to true and leaves
  \<^verbatim>\<open>capture_output\<close> unset, \<^verbatim>\<open>MIRROR\<close> sets neither. The options exist whenever
  \<^verbatim>\<open>shlex.split\<close> does not raise.
\<close>

theorem monitor_options_population:
  "(make_procmon_options ev opts = Inr pm \<longrightarrow>
      (target_cmd opts = None \<longrightarrow> start_commands pm = None) \<and>
      (\<forall>cmd. target_cmd opts = Some cmd \<longrightarrow>
         (\<exists>argv. shlex_split ev cmd = Inr argv \<and> start_commands pm = Some [argv])) \<and>
      startup_wait pm =
        (if float_truthy (target_start_wait opts) then Some (target_start_wait opts) else None) \<and>
      (float_positive (target_start_wait opts) \<longrightarrow>
         startup_wait pm = Some (target_start_wait opts)) \<and>
      (stdout opts = ''CAPTURE'' \<longrightarrow> capture_output pm = Some True \<and> hide_output pm = None) \<and>
      (stdout opts = ''HIDE'' \<longrightarrow> hide_output pm = Some True \<and> capture_output pm = None) \<and>
      (stdout opts = ''MIRROR'' \<longrightarrow> capture_output pm = None \<and> hide_output pm = None)) \<and>
   (target_cmd opts = None \<or> (\<exists>cmd argv. target_cmd opts = Some cmd \<and> shlex_split ev cmd = Inr argv)
      \<longrightarrow> (\<exists>pm. make_procmon_options ev opts = Inr pm))"
  by (auto simp: make_procmon_options_def no_options_def Let_def float_positive_truthy
      split: option.splits sum.splits if_splits)

theorem monitor_options_population_witness:
  "make_procmon_options linux_env
     (default_options\<lparr>target_cmd := Some ''mybinary --flag'', stdout := ''CAPTURE''\<rparr>) =
     Inr (mybinary_options\<lparr>capture_output := Some True\<rparr>) \<and>
   target_cmd (default_options\<lparr>target_cmd := Some ''mybinary --flag'', stdout := ''CAPTURE''\<rparr>) =
     Some ''mybinary --flag'' \<and>
   shlex_split linux_env ''mybinary --flag'' = Inr [''mybinary'', ''--flag''] \<and>
   start_commands (mybinary_options\<lparr>capture_output := Some True\<rparr>) =
     Some [[''mybinary'', ''--flag'']] \<and>
   capture_output (mybinary_options\<lparr>capture_output := Some True\<rparr>) = Some True \<and>
   hide_output (mybinary_options\<lparr>capture_output := Some True\<rparr>) = None \<and>
   startup_wait (mybinary_options\<lparr>capture_output := Some True\<rparr>) = None"
  using monitor_options_population [where ev = linux_env
      and opts = "default_options\<lparr>target_cmd := Some ''mybinary --flag'', stdout := ''CAPTURE''\<rparr>"
      and pm = "mybinary_options\<lparr>capture_output := Some True\<rparr>"]
  by (simp add: make_procmon_options_def default_options_def no_options_def linux_env_def
      mybinary_options_def)

subsection \<open>The loggers\<close>

lemma run_text_dump_and_tui:
  "fuzz linux_env (default_options\<lparr>text_dump := True, tui := True\<rparr>) initial_world =
     (Return (default_context [] [FuzzLoggerText] 1 None False),
      \<lparr>QEMU_PATH = None,
         trace = [New_FuzzLoggerText, New_TCPSocketConnection, New_Target, New_Session,
                  New_CliContext]\<rparr>)"
  by (simp add: run_eval parse_index_range_def)

lemma run_csv_out:
  "fuzz linux_env (default_options\<lparr>csv_out := Some ''results/run1.csv''\<rparr>) initial_world =
     (Return (default_context [] [FuzzLoggerCsv 3] 1 None False),
      \<lparr>QEMU_PATH = None,
         trace = [Open ''boofuzz.csv'' ''wb'', New_FuzzLoggerCsv, New_TCPSocketConnection,
                  New_Target, New_Session, New_CliContext]\<rparr>)"
  by (simp add: run_eval parse_index_range_def)

text \<open>
  Claim C5. For each of the four settings of the two flags: with the text dump on, the list
  of sinks has the text sink and not the curses one, whatever \<^verbatim>\<open>--tui\<close> says (the curses sink
  is not even built); with only the TUI on, it has the curses sink and not the text one; with
  both off, it has neither.
\<close>

theorem console_sink_selection:
  "make_ui_loggers opts w =
     (Return (if text_dump opts then [FuzzLoggerText]
              else if tui opts then [FuzzLoggerCurses] else []),
      w\<lparr>trace := trace w @
          (if text_dump opts then [New_FuzzLoggerText]
           else if tui opts then [New_FuzzLoggerCurses] else [])\<rparr>) \<and>
   (fuzz ev opts w = (Return c, w') \<longrightarrow>
      (text_dump opts \<longrightarrow>
         FuzzLoggerText \<in> set (fuzz_loggers (ctx_obj c)) \<and>
         FuzzLoggerCurses \<notin> set (fuzz_loggers (ctx_obj c))) \<and>
      (\<not> text_dump opts \<and> tui opts \<longrightarrow>
         FuzzLoggerCurses \<in> set (fuzz_loggers (ctx_obj c)) \<and>
         FuzzLoggerText \<notin> set (fuzz_loggers (ctx_obj c))) \<and>
      (\<not> text_dump opts \<and> \<not> tui opts \<longrightarrow>
         FuzzLoggerText \<notin> set (fuzz_loggers (ctx_obj c)) \<and>
         FuzzLoggerCurses \<notin> set (fuzz_loggers (ctx_obj c))))"
proof (intro conjI impI)
  show "make_ui_loggers opts w =
     (Return (if text_dump opts then [FuzzLoggerText]
              else if tui opts then [FuzzLoggerCurses] else []),
      w\<lparr>trace := trace w @
          (if text_dump opts then [New_FuzzLoggerText]
           else if tui opts then [New_FuzzLoggerCurses] else [])\<rparr>)"
    by (simp add: make_ui_loggers_eq)
next
  assume "fuzz ev opts w = (Return c, w')"
  then obtain w1 d where "build_session ev opts d w1 = (Return c, w')"
    unfolding fuzz_Return by blast
  from build_session_result [OF this] obtain f where
    ls: "fuzz_loggers (ctx_obj c) =
       (if text_dump opts then [FuzzLoggerText]
        else if tui opts then [FuzzLoggerCurses] else []) @
       (if csv_out opts \<noteq> None then [FuzzLoggerCsv f] else [])"
    by blast
  {
    assume "text_dump opts"
    then show "FuzzLoggerText \<in> set (fuzz_loggers (ctx_obj c))"
      and "FuzzLoggerCurses \<notin> set (fuzz_loggers (ctx_obj c))"
      unfolding ls by simp_all
  next
    assume "\<not> text_dump opts \<and> tui opts"
    then show "FuzzLoggerCurses \<in> set (fuzz_loggers (ctx_obj c))"
      and "FuzzLoggerText \<notin> set (fuzz_loggers (ctx_obj c))"
      unfolding ls by simp_all
  next
    assume "\<not> text_dump opts \<and> \<not> tui opts"
    then show "FuzzLoggerText \<notin> set (fuzz_loggers (ctx_obj c))"
      and "FuzzLoggerCurses \<notin> set (fuzz_loggers (ctx_obj c))"
      unfolding ls by simp_all
  }
qed

theorem console_sink_selection_witness:
  "text_dump (default_options\<lparr>text_dump := True, tui := True\<rparr>) \<and>
   tui (default_options\<lparr>text_dump := True, tui := True\<rparr>) \<and>
   fst (fuzz linux_env (default_options\<lparr>text_dump := True, tui := True\<rparr>) initial_world) =
     Return (default_context [] [FuzzLoggerText] 1 None False) \<and>
   FuzzLoggerText \<in> set (fuzz_loggers (ctx_obj (default_context [] [FuzzLoggerText] 1 None False))) \<and>
   FuzzLoggerCurses \<notin> set (fuzz_loggers (ctx_obj (default_context [] [FuzzLoggerText] 1 None False)))"
  using console_sink_selection [where ev = linux_env and w = initial_world
      and opts = "default_options\<lparr>text_dump := True, tui := True\<rparr>"
      and c = "default_context [] [FuzzLoggerText] 1 None False"
      and w' = "\<lparr>QEMU_PATH = None,
         trace = [New_FuzzLoggerText, New_TCPSocketConnection, New_Target, New_Session,
                  New_CliContext]\<rparr>"]
  by (simp add: run_text_dump_and_tui)

text \<open>
  Claim C6. Whatever path \<^verbatim>\<open>--csv-out\<close> names, the file that is opened is \<^verbatim>\<open>boofuzz.csv\<close>, for
  binary writing, and the CSV sink on the handle it gives is added last to the list. Without
  \<^verbatim>\<open>--csv-out\<close> no file is opened and no CSV sink is added. A run that returns has opened no
  other file.
\<close>

theorem csv_sink_fixed_file:
  "add_csv_logger ev opts ls w =
     (case csv_out opts of
        None \<Rightarrow> (Return ls, w)
      | Some path \<Rightarrow>
          (case open_file ev ''boofuzz.csv'' ''wb'' of
             Inl e \<Rightarrow> (Raise e, w\<lparr>trace := trace w @ [Open ''boofuzz.csv'' ''wb'']\<rparr>)
           | Inr f \<Rightarrow>
               (Return (ls @ [FuzzLoggerCsv f]),
                w\<lparr>trace := trace w @ [Open ''boofuzz.csv'' ''wb'', New_FuzzLoggerCsv]\<rparr>))) \<and>
   (fuzz ev opts w = (Return c, w') \<longrightarrow>
      (csv_out opts \<noteq> None \<longrightarrow>
         (\<exists>f. open_file ev ''boofuzz.csv'' ''wb'' = Inr f \<and>
              fuzz_loggers (ctx_obj c) \<noteq> [] \<and>
              last (fuzz_loggers (ctx_obj c)) = FuzzLoggerCsv f) \<and>
         Open ''boofuzz.csv'' ''wb'' \<in> set (trace w')) \<and>
      (csv_out opts = None \<longrightarrow> (\<forall>f. FuzzLoggerCsv f \<notin> set (fuzz_loggers (ctx_obj c)))) \<and>
      (\<forall>name mode. Open name mode \<in> set (trace w') \<longrightarrow>
         Open name mode \<in> set (trace w) \<or>
         csv_out opts \<noteq> None \<and> name = ''boofuzz.csv'' \<and> mode = ''wb''))"
proof (intro conjI impI)
  show "add_csv_logger ev opts ls w =
     (case csv_out opts of
        None \<Rightarrow> (Return ls, w)
      | Some path \<Rightarrow>
          (case open_file ev ''boofuzz.csv'' ''wb'' of
             Inl e \<Rightarrow> (Raise e, w\<lparr>trace := trace w @ [Open ''boofuzz.csv'' ''wb'']\<rparr>)
           | Inr f \<Rightarrow>
               (Return (ls @ [FuzzLoggerCsv f]),
                w\<lparr>trace := trace w @ [Open ''boofuzz.csv'' ''wb'', New_FuzzLoggerCsv]\<rparr>)))"
    by (rule add_csv_logger_eq)
next
  assume run: "fuzz ev opts w = (Return c, w')"
  then obtain w1 d where w1: "trace w1 = trace w"
    and "build_session ev opts d w1 = (Return c, w')"
    unfolding fuzz_Return by blast
  from build_session_result [OF this(2)] obtain f where
    f: "csv_out opts \<noteq> None \<longrightarrow> open_file ev ''boofuzz.csv'' ''wb'' = Inr f" and
    ls: "fuzz_loggers (ctx_obj c) =
       (if text_dump opts then [FuzzLoggerText]
        else if tui opts then [FuzzLoggerCurses] else []) @
       (if csv_out opts \<noteq> None then [FuzzLoggerCsv f] else [])" and
    tr: "trace w' = trace w1 @
       (if target_cmd opts \<noteq> None \<and> procmon_host opts = None then [New_ProcessMonitorLocal] else []) @
       (if text_dump opts then [New_FuzzLoggerText]
        else if tui opts then [New_FuzzLoggerCurses] else []) @
       (if csv_out opts \<noteq> None then [Open ''boofuzz.csv'' ''wb'', New_FuzzLoggerCsv] else []) @
       (if procmon_host opts \<noteq> None then [New_ProcessMonitor, Call_set_options]
        else if target_cmd opts \<noteq> None then [Call_set_options] else []) @
       [New_TCPSocketConnection, New_Target, New_Session, New_CliContext]"
    by blast
  show "\<forall>name mode. Open name mode \<in> set (trace w') \<longrightarrow>
         Open name mode \<in> set (trace w) \<or>
         csv_out opts \<noteq> None \<and> name = ''boofuzz.csv'' \<and> mode = ''wb''"
    unfolding tr w1 by (auto split: if_splits)
  {
    assume "csv_out opts \<noteq> None"
    then show "\<exists>f. open_file ev ''boofuzz.csv'' ''wb'' = Inr f \<and>
              fuzz_loggers (ctx_obj c) \<noteq> [] \<and>
              last (fuzz_loggers (ctx_obj c)) = FuzzLoggerCsv f"
      and "Open ''boofuzz.csv'' ''wb'' \<in> set (trace w')"
      using f unfolding ls tr by simp_all
  next
    assume "csv_out opts = None"
    then show "\<forall>f. FuzzLoggerCsv f \<notin> set (fuzz_loggers (ctx_obj c))"
      unfolding ls by simp
  }
qed

theorem csv_sink_fixed_file_witness:
  "csv_out (default_options\<lparr>csv_out := Some ''results/run1.csv''\<rparr>) \<noteq> None \<and>
   fuzz linux_env (default_options\<lparr>csv_out := Some ''results/run1.csv''\<rparr>) initial_world =
     (Return (default_context [] [FuzzLoggerCsv 3] 1 None False),
      \<lparr>QEMU_PATH = None,
         trace = [Open ''boofuzz.csv'' ''wb'', New_FuzzLoggerCsv, New_TCPSocketConnection,
                  New_Target, New_Session, New_CliContext]\<rparr>) \<and>
   open_file linux_env ''boofuzz.csv'' ''wb'' = Inr 3 \<and>
   last (fuzz_loggers (ctx_obj (default_context [] [FuzzLoggerCsv 3] 1 None False))) =
     FuzzLoggerCsv 3 \<and>
   csv_out default_options = None \<and>
   fuzz linux_env default_options initial_world =
     (Return (default_context [] [] 1 None False),
      \<lparr>QEMU_PATH = None,
         trace = [New_TCPSocketConnection, New_Target, New_Session, New_CliContext]\<rparr>) \<and>
   fuzz_loggers (ctx_obj (default_context [] [] 1 None False)) = []"
  using csv_sink_fixed_file [where ev = linux_env and w = initial_world
      and opts = "default_options\<lparr>csv_out := Some ''results/run1.csv''\<rparr>"
      and c = "default_context [] [FuzzLoggerCsv 3] 1 None False"
      and w' = "\<lparr>QEMU_PATH = None,
         trace = [Open ''boofuzz.csv'' ''wb'', New_FuzzLoggerCsv, New_TCPSocketConnection,
                  New_Target, New_Session, New_CliContext]\<rparr>"]
    csv_sink_fixed_file [where ev = linux_env and w = initial_world
      and opts = default_options
      and c = "default_context [] [] 1 None False"
      and w' = "\<lparr>QEMU_PATH = None,
         trace = [New_TCPSocketConnection, New_Target, New_Session, New_CliContext]\<rparr>"]
  by (simp add: run_csv_out run_defaults)
    (simp add: default_options_def linux_env_def default_context_def)

subsection \<open>The tool of the QEMU backend\<close>

lemma fuzz_QEMU_PATH:
  "QEMU_PATH (snd (fuzz ev opts w)) = QEMU_PATH (snd (select_debugger ev opts w))"
proof (cases "select_debugger ev opts w")
  case (Pair r w1)
  show ?thesis
  proof (cases r)
    case (Return d)
    with Pair have "fuzz ev opts w = build_session ev opts d w1"
      by (simp add: fuzz_def and_then_Return)
    moreover have "QEMU_PATH (snd (build_session ev opts d w1)) = QEMU_PATH w1"
      using quiet_build_session [of ev opts d] unfolding quiet_def by blast
    ultimately show ?thesis
      using Pair by simp
  next
    case (SysExit n)
    with Pair show ?thesis
      by (simp add: fuzz_def and_then_SysExit)
  next
    case (Raise e)
    with Pair show ?thesis
      by (simp add: fuzz_def and_then_Raise)
  qed
qed

text \<open>
  Claim C4. The rules of the backend are tried in the order of lines 110 to 121, and the
  check of the platform comes first: on Windows the run stops there (claim C3). With the QEMU
  flag set, no path given and no tool found on the search path, the program prints an error
  and exits with the code 1; this holds on every platform, and past the check of the
  platform the error is the one that names the tool. With the QEMU flag set, past the check
  of the platform, a path that is given is recorded in \<^verbatim>\<open>QEMU_PATH\<close>, and it is there when
  the backend is chosen (a path that is not empty makes the QEMU backend the choice) and for
  the rest of the run. On Windows \<^verbatim>\<open>QEMU_PATH\<close> is left as it was.
\<close>

theorem qemu_tool_resolution:
  "qemu opts \<longrightarrow>
     (qemu_path opts = None \<and> \<not> str_truthy (QEMU_PATH w) \<longrightarrow>
        fuzz ev opts w =
          (SysExit 1,
           w\<lparr>trace := trace w @
               [Print_stderr (if platform_system ev = ''Windows'' then windows_message
                              else not_found_message)]\<rparr>)) \<and>
     (\<forall>p. qemu_path opts = Some p \<and> platform_system ev \<noteq> ''Windows'' \<longrightarrow>
        QEMU_PATH (snd (select_debugger ev opts w)) = Some p \<and>
        QEMU_PATH (snd (fuzz ev opts w)) = Some p \<and>
        (p \<noteq> [] \<longrightarrow>
           select_debugger ev opts w =
             (Return DebuggerThreadQemu, w\<lparr>QEMU_PATH := Some p\<rparr>))) \<and>
     (platform_system ev = ''Windows'' \<longrightarrow> QEMU_PATH (snd (fuzz ev opts w)) = QEMU_PATH w)"
proof (intro impI conjI allI)
  assume q: "qemu opts"
  {
    assume h: "qemu_path opts = None \<and> \<not> str_truthy (QEMU_PATH w)"
    show "fuzz ev opts w =
          (SysExit 1,
           w\<lparr>trace := trace w @
               [Print_stderr (if platform_system ev = ''Windows'' then windows_message
                              else not_found_message)]\<rparr>)"
    proof (cases "platform_system ev = ''Windows''")
      case True
      with q show ?thesis
        by (simp add: fuzz_def and_then_SysExit select_debugger_windows)
    next
      case False
      with q h have "select_debugger ev opts w =
          (SysExit 1, w\<lparr>trace := trace w @ [Print_stderr not_found_message]\<rparr>)"
        by (simp add: select_debugger_elsewhere)
      with False show ?thesis
        by (simp add: fuzz_def and_then_SysExit)
    qed
  next
    fix p
    assume h: "qemu_path opts = Some p \<and> platform_system ev \<noteq> ''Windows''"
    with q show sel: "QEMU_PATH (snd (select_debugger ev opts w)) = Some p"
      by (simp add: select_debugger_elsewhere Let_def)
    then show "QEMU_PATH (snd (fuzz ev opts w)) = Some p"
      by (simp add: fuzz_QEMU_PATH)
    assume "p \<noteq> []"
    with q h show "select_debugger ev opts w =
        (Return DebuggerThreadQemu, w\<lparr>QEMU_PATH := Some p\<rparr>)"
      by (simp add: select_debugger_elsewhere)
  next
    assume "platform_system ev = ''Windows''"
    with q show "QEMU_PATH (snd (fuzz ev opts w)) = QEMU_PATH w"
      by (simp add: fuzz_QEMU_PATH select_debugger_windows)
  }
qed

theorem qemu_tool_resolution_witness:
  "qemu (default_options\<lparr>qemu := True, qemu_path := Some ''/opt/afl/afl-qemu-trace''\<rparr>) \<and>
   qemu_path (default_options\<lparr>qemu := True, qemu_path := Some ''/opt/afl/afl-qemu-trace''\<rparr>) =
     Some ''/opt/afl/afl-qemu-trace'' \<and>
   platform_system linux_env \<noteq> ''Windows'' \<and>
   select_debugger linux_env
     (default_options\<lparr>qemu := True, qemu_path := Some ''/opt/afl/afl-qemu-trace''\<rparr>)
     initial_world =
     (Return DebuggerThreadQemu, \<lparr>QEMU_PATH = Some ''/opt/afl/afl-qemu-trace'', trace = []\<rparr>) \<and>
   QEMU_PATH (snd (fuzz linux_env
     (default_options\<lparr>qemu := True, qemu_path := Some ''/opt/afl/afl-qemu-trace''\<rparr>)
     initial_world)) = Some ''/opt/afl/afl-qemu-trace'' \<and>
   qemu (default_options\<lparr>qemu := True\<rparr>) \<and>
   qemu_path (default_options\<lparr>qemu := True\<rparr>) = None \<and>
   \<not> str_truthy (QEMU_PATH initial_world) \<and>
   fuzz linux_env (default_options\<lparr>qemu := True\<rparr>) initial_world =
     (SysExit 1, \<lparr>QEMU_PATH = None, trace = [Print_stderr not_found_message]\<rparr>)"
  using qemu_tool_resolution [where ev = linux_env and w = initial_world
      and opts = "default_options\<lparr>qemu := True, qemu_path := Some ''/opt/afl/afl-qemu-trace''\<rparr>"]
    qemu_tool_resolution [where ev = linux_env and w = initial_world
      and opts = "default_options\<lparr>qemu := True\<rparr>"]
  by (simp add: linux_env_def default_options_def initial_world_def)

end
